theory Spec2Isabelle
  imports Complex_Main "HOL-Library.AList" "HOL-Library.Sublist"
begin

section \<open>The Astro integration\<close>

subsection \<open>JavaScript values used by the integration\<close>

text \<open>
  An optional field of a TypeScript interface is an \<open>option\<close>: \<open>None\<close> is
  \<open>undefined\<close>. A destructuring default (\<open>autoTrack = true\<close>) replaces
  \<open>undefined\<close> only.
\<close>

definition or_default :: "'a option \<Rightarrow> 'a \<Rightarrow> 'a" where
  "or_default x d = (case x of None \<Rightarrow> d | Some v \<Rightarrow> v)"

text \<open>
  Truthiness of an optional string: \<open>undefined\<close> and the empty string are falsy.
  \<open>a || b\<close> is \<open>a\<close> when \<open>a\<close> is truthy and \<open>b\<close> otherwise.
\<close>

definition truthy :: "string option \<Rightarrow> bool" where
  "truthy x = (case x of None \<Rightarrow> False | Some s \<Rightarrow> s \<noteq> [])"

definition js_or :: "string option \<Rightarrow> string option \<Rightarrow> string option" where
  "js_or a b = (if truthy a then a else b)"

text \<open>\<open>a || d\<close> where \<open>d\<close> is a string constant, so that the result is a string.\<close>

definition js_or_str :: "string option \<Rightarrow> string \<Rightarrow> string" where
  "js_or_str a d = (case a of None \<Rightarrow> d | Some s \<Rightarrow> if s \<noteq> [] then s else d)"

text \<open>\<open>Array.prototype.join\<close> on an array of strings.\<close>

fun join :: "string \<Rightarrow> string list \<Rightarrow> string" where
  "join sep [] = []"
| "join sep [x] = x"
| "join sep (x # y # ys) = x @ sep @ join sep (y # ys)"

text \<open>
  \<open>host.replace(/\/$/, '')\<close>: the pattern has no flag, so it matches one slash at the
  very end of the string, and \<open>replace\<close> removes that one match.
\<close>

definition replace_trailing_slash :: "string \<Rightarrow> string" where
  "replace_trailing_slash h = (if h \<noteq> [] \<and> last h = CHR ''/'' then butlast h else h)"

subsection \<open>Options\<close>

definition DEFAULT_HOST :: string where
  "DEFAULT_HOST = ''https://entrolytics.click''"

text \<open>
  \<open>EntrolyticsOptions\<close> has a required \<open>websiteId\<close>; the factory takes
  \<open>Partial<EntrolyticsOptions>\<close>, where it is optional too. The record is
  parameterised by the type of that one field.
\<close>

record 'id EntrolyticsOptions_of =
  websiteId :: 'id
  host :: "string option"
  autoTrack :: "bool option"
  trackOutboundLinks :: "bool option"
  trackFileDownloads :: "bool option"
  respectDnt :: "bool option"
  domains :: "string list option"
  cacheScript :: "bool option"
  useEdgeRuntime :: "bool option"
  tag :: "string option"
  excludeSearch :: "bool option"
  excludeHash :: "bool option"

type_synonym EntrolyticsOptions = "string EntrolyticsOptions_of"

type_synonym PartialEntrolyticsOptions = "string option EntrolyticsOptions_of"

subsection \<open>generateScriptTag\<close>

definition scriptPath :: "EntrolyticsOptions \<Rightarrow> string" where
  "scriptPath options =
     (if or_default (useEdgeRuntime options) True then ''/script-edge.js'' else ''/script.js'')"

definition scriptUrl :: "EntrolyticsOptions \<Rightarrow> string" where
  "scriptUrl options =
     replace_trailing_slash (or_default (host options) DEFAULT_HOST) @ scriptPath options"

text \<open>\<open>if (c) attributes.push(a)\<close>\<close>

definition push_if :: "bool \<Rightarrow> string \<Rightarrow> string list \<Rightarrow> string list" where
  "push_if c a attributes = (if c then attributes @ [a] else attributes)"

text \<open>The array \<open>attributes\<close> of \<open>generateScriptTag\<close>, after the last push.\<close>

definition attributes :: "EntrolyticsOptions \<Rightarrow> string list" where
  \<open>attributes options =
     (let a0 = [''src="'' @ scriptUrl options @ ''"'',
                ''data-website-id="'' @ websiteId options @ ''"'',
                ''defer''];
          a1 = push_if (\<not> or_default (autoTrack options) True)
                 ''data-auto-track="false"'' a0;
          a2 = push_if (or_default (trackOutboundLinks options) True)
                 ''data-track-outbound-links="true"'' a1;
          a3 = push_if (or_default (trackFileDownloads options) False)
                 ''data-track-file-downloads="true"'' a2;
          a4 = push_if (or_default (respectDnt options) False)
                 ''data-do-not-track="true"'' a3;
          a5 = (case domains options of
                  None \<Rightarrow> a4
                | Some ds \<Rightarrow>
                    push_if (length ds > 0) (''data-domains="'' @ join '','' ds @ ''"'') a4);
          a6 = (case tag options of
                  None \<Rightarrow> a5
                | Some t \<Rightarrow> push_if (t \<noteq> []) (''data-tag="'' @ t @ ''"'') a5);
          a7 = push_if (or_default (excludeSearch options) False)
                 ''data-exclude-search="true"'' a6;
          a8 = push_if (or_default (excludeHash options) False)
                 ''data-exclude-hash="true"'' a7
      in a8)\<close>

definition generateScriptTag :: "EntrolyticsOptions \<Rightarrow> string" where
  \<open>generateScriptTag options = ''<script '' @ join '' '' (attributes options) @ ''></script>''\<close>

subsection \<open>The factory\<close>

text \<open>
  \<open>import.meta.env\<close>, with the variables the factory reads. \<open>DEV\<close> is the
  development flag that Vite sets; a variable that is not set is \<open>None\<close>.
\<close>

record ImportMetaEnv =
  PUBLIC_ENTROLYTICS_WEBSITE_ID :: "string option"
  VITE_ENTROLYTICS_WEBSITE_ID :: "string option"
  PUBLIC_ENTROLYTICS_HOST :: "string option"
  VITE_ENTROLYTICS_HOST :: "string option"
  DEV :: bool

text \<open>\<open>(import.meta as any).env || {}\<close>\<close>

definition env_or_empty :: "ImportMetaEnv option \<Rightarrow> ImportMetaEnv" where
  "env_or_empty e =
     (case e of
        None \<Rightarrow> \<lparr>PUBLIC_ENTROLYTICS_WEBSITE_ID = None, VITE_ENTROLYTICS_WEBSITE_ID = None,
                 PUBLIC_ENTROLYTICS_HOST = None, VITE_ENTROLYTICS_HOST = None, DEV = False\<rparr>
      | Some env \<Rightarrow> env)"

datatype error = Error string

text \<open>
  The integration object: its name, and what its \<open>astro:config:setup\<close> hook does
  with the \<open>injectScript\<close> it is given, as the list of calls \<open>(stage, content)\<close>
  in the order the hook makes them.
\<close>

record AstroIntegration =
  name :: string
  astro_config_setup :: "(string \<times> string) list"

definition NL :: string where
  "NL = [CHR 0x0A]"

definition configScript :: "string \<Rightarrow> string \<Rightarrow> string" where
  \<open>configScript wid h =
     NL @ ''          <script>''
     @ NL @ ''            window.__entrolytics_config = {''
     @ NL @ ''              websiteId: "'' @ wid @ ''",''
     @ NL @ ''              host: "'' @ replace_trailing_slash h @ ''"''
     @ NL @ ''            };''
     @ NL @ ''          </script>''
     @ NL @ ''        ''\<close>

definition pageScript :: string where
  \<open>pageScript =
     NL @ ''          document.addEventListener('astro:page-load', () => {''
     @ NL @ ''            if (typeof window.entrolytics !== 'undefined' && window.entrolytics.track) {''
     @ NL @ ''              // The script handles this automatically with data-auto-track''
     @ NL @ ''              // This is a fallback for View Transitions''
     @ NL @ ''            }''
     @ NL @ ''          });''
     @ NL @ ''        ''\<close>

text \<open>The lines \<open>const websiteId = ...\<close> and \<open>const host = ...\<close> of the factory.\<close>

definition resolve_websiteId :: "PartialEntrolyticsOptions \<Rightarrow> ImportMetaEnv \<Rightarrow> string option" where
  "resolve_websiteId options env =
     js_or (js_or (websiteId options) (PUBLIC_ENTROLYTICS_WEBSITE_ID env))
       (VITE_ENTROLYTICS_WEBSITE_ID env)"

definition resolve_host :: "PartialEntrolyticsOptions \<Rightarrow> ImportMetaEnv \<Rightarrow> string" where
  "resolve_host options env =
     js_or_str (js_or (js_or (host options) (PUBLIC_ENTROLYTICS_HOST env))
       (VITE_ENTROLYTICS_HOST env)) DEFAULT_HOST"

definition finalOptions :: "PartialEntrolyticsOptions \<Rightarrow> string \<Rightarrow> string \<Rightarrow> EntrolyticsOptions" where
  "finalOptions options wid h =
     \<lparr>websiteId = wid,
      host = Some h,
      autoTrack = autoTrack options,
      trackOutboundLinks = trackOutboundLinks options,
      trackFileDownloads = trackFileDownloads options,
      respectDnt = respectDnt options,
      domains = domains options,
      cacheScript = cacheScript options,
      useEdgeRuntime = useEdgeRuntime options,
      tag = tag options,
      excludeSearch = excludeSearch options,
      excludeHash = excludeHash options\<rparr>"

text \<open>The value the factory returns once the identifier \<open>wid\<close> and the host \<open>h\<close> are known.\<close>

definition integration :: "PartialEntrolyticsOptions \<Rightarrow> string \<Rightarrow> string \<Rightarrow> AstroIntegration" where
  "integration options wid h =
     \<lparr>name = ''@entrolytics/astro'',
      astro_config_setup =
        [(''head-inline'', configScript wid h),
         (''head-inline'', generateScriptTag (finalOptions options wid h)),
         (''page'', pageScript)]\<rparr>"

definition missing_websiteId_warning :: string where
  "missing_websiteId_warning =
     ''[@entrolytics/astro] Missing websiteId. Add PUBLIC_ENTROLYTICS_WEBSITE_ID to your .env file.''"

definition websiteId_required :: error where
  "websiteId_required = Error ''[@entrolytics/astro] websiteId is required''"

text \<open>
  The factory returns what it wrote with \<open>console.warn\<close> and then either the error
  it threw (\<open>Inl\<close>) or the integration (\<open>Inr\<close>). \<open>!websiteId\<close> holds when the
  resolved identifier is \<open>undefined\<close> or empty.
\<close>

definition entrolytics ::
  "PartialEntrolyticsOptions \<Rightarrow> ImportMetaEnv option \<Rightarrow> string list \<times> (error + AstroIntegration)" where
  "entrolytics options meta_env =
     (let env = env_or_empty meta_env;
          wid = resolve_websiteId options env;
          h = resolve_host options env;
          failed = ((if DEV env then [missing_websiteId_warning] else []), Inl websiteId_required)
      in case wid of
           None \<Rightarrow> failed
         | Some w \<Rightarrow> if w = [] then failed else ([], Inr (integration options w h)))"

section \<open>The client module\<close>

subsection \<open>Values and records\<close>

text \<open>
  A JavaScript \<open>number\<close> is a \<open>real\<close>: the module subtracts timestamps and
  passes every other number on unchanged. An object is the list of its entries in
  insertion order.
\<close>

datatype js =
    JUndefined
  | JStr string
  | JNum real
  | JBool bool
  | JObj "(string \<times> js) list"
  | JArr "js list"

type_synonym EventData = "(string \<times> js) list"

definition js_opt :: "('a \<Rightarrow> js) \<Rightarrow> 'a option \<Rightarrow> js" where
  "js_opt f x = (case x of None \<Rightarrow> JUndefined | Some v \<Rightarrow> f v)"

datatype WebVitalMetric = LCP | INP | CLS | TTFB | FCP

datatype WebVitalRating = Good | NeedsImprovement | Poor

datatype NavigationType =
  Navigate | Reload | BackForward | BackForwardCache | Prerender | Restore

fun metric_string :: "WebVitalMetric \<Rightarrow> string" where
  "metric_string LCP = ''LCP''"
| "metric_string INP = ''INP''"
| "metric_string CLS = ''CLS''"
| "metric_string TTFB = ''TTFB''"
| "metric_string FCP = ''FCP''"

fun rating_string :: "WebVitalRating \<Rightarrow> string" where
  "rating_string Good = ''good''"
| "rating_string NeedsImprovement = ''needs-improvement''"
| "rating_string Poor = ''poor''"

fun navigation_string :: "NavigationType \<Rightarrow> string" where
  "navigation_string Navigate = ''navigate''"
| "navigation_string Reload = ''reload''"
| "navigation_string BackForward = ''back-forward''"
| "navigation_string BackForwardCache = ''back-forward-cache''"
| "navigation_string Prerender = ''prerender''"
| "navigation_string Restore = ''restore''"

text \<open>The fields \<open>value\<close> and \<open>id\<close> of the source are \<open>vital_value\<close> and \<open>vital_id\<close>.\<close>

record WebVitalData =
  metric :: WebVitalMetric
  vital_value :: real
  rating :: WebVitalRating
  delta :: "real option"
  vital_id :: "string option"
  navigationType :: "NavigationType option"
  attribution :: "(string \<times> js) list option"

datatype FormEventType = start | field_focus | field_blur | field_error | submit | abandon

fun event_string :: "FormEventType \<Rightarrow> string" where
  "event_string start = ''start''"
| "event_string field_focus = ''field_focus''"
| "event_string field_blur = ''field_blur''"
| "event_string field_error = ''field_error''"
| "event_string submit = ''submit''"
| "event_string abandon = ''abandon''"

record FormEventData =
  eventType :: FormEventType
  formId :: string
  formName :: "string option"
  urlPath :: "string option"
  fieldName :: "string option"
  fieldType :: "string option"
  fieldIndex :: "real option"
  timeOnField :: "real option"
  timeSinceStart :: "real option"
  errorMessage :: "string option"
  success :: "bool option"

subsection \<open>The browser\<close>

text \<open>\<open>window.__entrolytics_config\<close>\<close>

record Config =
  config_websiteId :: string
  config_host :: string

text \<open>
  What the module does to its surroundings, in order: console output, the requests
  it starts and the calls it makes on \<open>window.entrolytics\<close>. A request is
  \<open>Fetch url method headers body keepalive\<close>, with the body as the object given to
  \<open>JSON.stringify\<close>.
\<close>

datatype effect =
    ConsoleWarn string
  | ConsoleError string string
  | Fetch string string "(string \<times> string) list" "(string \<times> js) list" bool
  | TrackerTrack string EventData

text \<open>
  The surroundings of a call. \<open>window_defined\<close> is \<open>typeof window !== 'undefined'\<close>.
  \<open>clock\<close> gives the value of each \<open>Date.now()\<close> and \<open>ticks\<close> counts the reads;
  \<open>tracker_at\<close> tells at which checks \<open>window.entrolytics\<close> is set and
  \<open>checks\<close> counts them; \<open>fetches\<close> numbers the requests and
  \<open>fetch_rejects\<close> gives, for each number, the error the request's promise rejects
  with, if any. \<open>pending\<close> holds the requests started by a call that nobody awaits
  and whose promise has not settled yet, each with the message of the \<open>catch\<close> block
  that waits for it.
\<close>

record World =
  window_defined :: bool
  entrolytics_config :: "Config option"
  location_href :: string
  location_pathname :: string
  clock :: "nat \<Rightarrow> real"
  ticks :: nat
  tracker_at :: "nat \<Rightarrow> bool"
  checks :: nat
  fetch_rejects :: "nat \<Rightarrow> string option"
  fetches :: nat
  pending :: "(nat \<times> string) list"
  trace :: "effect list"

definition Date_now :: "World \<Rightarrow> real \<times> World" where
  "Date_now w = (clock w (ticks w), w\<lparr>ticks := Suc (ticks w)\<rparr>)"

definition console_warn :: "string \<Rightarrow> World \<Rightarrow> World" where
  "console_warn msg w = w\<lparr>trace := trace w @ [ConsoleWarn msg]\<rparr>"

definition console_error :: "string \<Rightarrow> string \<Rightarrow> World \<Rightarrow> World" where
  "console_error msg err w = w\<lparr>trace := trace w @ [ConsoleError msg err]\<rparr>"

text \<open>
  \<open>fetch(url, {method: 'POST', headers: {'Content-Type': 'application/json'},
  body: JSON.stringify(payload), keepalive: true})\<close>: the request goes out at once,
  and the result is the number of the request, which stands for its promise.
\<close>

definition fetch :: "string \<Rightarrow> (string \<times> js) list \<Rightarrow> World \<Rightarrow> nat \<times> World" where
  "fetch url payload w =
     (fetches w,
      w\<lparr>fetches := Suc (fetches w),
        trace := trace w
          @ [Fetch url ''POST'' [(''Content-Type'', ''application/json'')] payload True]\<rparr>)"

text \<open>
  What follows \<open>await fetch(...)\<close> inside \<open>try\<close>, once the promise of request \<open>k\<close>
  has settled: \<open>catch (err) { console.error(msg, err) }\<close> when it was rejected, and
  nothing otherwise.
\<close>

definition catch_fetch :: "string \<Rightarrow> nat \<Rightarrow> World \<Rightarrow> World" where
  "catch_fetch msg k w =
     (case fetch_rejects w k of None \<Rightarrow> w | Some err \<Rightarrow> console_error msg err w)"

definition getConfig :: "World \<Rightarrow> Config option" where
  "getConfig w = (if \<not> window_defined w then None else entrolytics_config w)"

subsection \<open>waitForTracker and trackRevenue\<close>

text \<open>
  \<open>tryExecute\<close> looks for the tracker and re-arms a timer when it is absent; the
  result is the check at which the tracker is found, and \<open>None\<close> when it never is.
\<close>

partial_function (option) tryExecute :: "(nat \<Rightarrow> bool) \<Rightarrow> nat \<Rightarrow> nat option" where
  "tryExecute present n = (if present n then Some n else tryExecute present (Suc n))"

text \<open>
  The world once the callback has run; \<open>None\<close> when it never runs. Outside a
  browser the function returns at once and the callback is dropped.
\<close>

definition waitForTracker :: "(World \<Rightarrow> World) \<Rightarrow> World \<Rightarrow> World option" where
  "waitForTracker callback w =
     (if \<not> window_defined w then Some w
      else case tryExecute (tracker_at w) (checks w) of
             None \<Rightarrow> None
           | Some n \<Rightarrow> Some (callback (w\<lparr>checks := Suc n\<rparr>)))"

text \<open>
  \<open>window.entrolytics?.track(eventName, eventData)\<close> inside the callback, which
  runs in the same turn as the check that found the tracker.
\<close>

definition tracker_track :: "string \<Rightarrow> EventData \<Rightarrow> World \<Rightarrow> World" where
  "tracker_track eventName eventData w = w\<lparr>trace := trace w @ [TrackerTrack eventName eventData]\<rparr>"

text \<open>
  \<open>{...data, revenue, currency}\<close>: the entries of \<open>data\<close>, then \<open>revenue\<close> and
  \<open>currency\<close>, each replacing the value of an entry with the same key where there
  is one and appended otherwise.
\<close>

definition revenue_eventData :: "real \<Rightarrow> string \<Rightarrow> EventData option \<Rightarrow> EventData" where
  "revenue_eventData revenue currency data =
     AList.update ''currency'' (JStr currency)
       (AList.update ''revenue'' (JNum revenue) (case data of None \<Rightarrow> [] | Some d \<Rightarrow> d))"

definition trackRevenue ::
  "string \<Rightarrow> real \<Rightarrow> string option \<Rightarrow> EventData option \<Rightarrow> World \<Rightarrow> World option" where
  "trackRevenue eventName revenue currency data w =
     waitForTracker
       (tracker_track eventName (revenue_eventData revenue (or_default currency ''USD'') data)) w"

subsection \<open>trackVital and trackFormEvent\<close>

text \<open>
  Both are \<open>async\<close>. \<open>trackVital\<close> and \<open>trackFormEvent\<close> give a call that is
  awaited: how the returned promise settles, with the world once it has.
\<close>

datatype settled = Fulfilled | Rejected string

definition config_not_found :: string where
  "config_not_found = ''[Entrolytics] Config not found. Ensure integration is properly configured.''"

definition trackVital :: "WebVitalData \<Rightarrow> World \<Rightarrow> settled \<times> World" where
  "trackVital data w =
     (if \<not> window_defined w then (Fulfilled, w)
      else case getConfig w of
        None \<Rightarrow> (Fulfilled, console_warn config_not_found w)
      | Some config \<Rightarrow>
          (let payload =
                 [(''website'', JStr (config_websiteId config)),
                  (''metric'', JStr (metric_string (metric data))),
                  (''value'', JNum (vital_value data)),
                  (''rating'', JStr (rating_string (rating data))),
                  (''delta'', js_opt JNum (delta data)),
                  (''id'', js_opt JStr (vital_id data)),
                  (''navigationType'', js_opt (JStr \<circ> navigation_string) (navigationType data)),
                  (''attribution'', js_opt JObj (attribution data)),
                  (''url'', JStr (location_href w)),
                  (''path'', JStr (location_pathname w))];
               (k, w1) = fetch (config_host config @ ''/api/collect/vitals'') payload w
           in (Fulfilled, catch_fetch ''[Entrolytics] Failed to track vital:'' k w1)))"

text \<open>
  The part of \<open>trackFormEvent\<close> that runs in the caller's turn, up to its
  \<open>await\<close>: the result is the request whose promise the function then waits for,
  and \<open>None\<close> when it has returned before.
\<close>

definition trackFormEvent_sync :: "FormEventData \<Rightarrow> World \<Rightarrow> nat option \<times> World" where
  "trackFormEvent_sync data w =
     (if \<not> window_defined w then (None, w)
      else case getConfig w of
        None \<Rightarrow> (None, console_warn config_not_found w)
      | Some config \<Rightarrow>
          (let payload =
                 [(''website'', JStr (config_websiteId config)),
                  (''eventType'', JStr (event_string (eventType data))),
                  (''formId'', JStr (formId data)),
                  (''formName'', js_opt JStr (formName data)),
                  (''urlPath'', JStr (js_or_str (urlPath data) (location_pathname w))),
                  (''fieldName'', js_opt JStr (fieldName data)),
                  (''fieldType'', js_opt JStr (fieldType data)),
                  (''fieldIndex'', js_opt JNum (fieldIndex data)),
                  (''timeOnField'', js_opt JNum (timeOnField data)),
                  (''timeSinceStart'', js_opt JNum (timeSinceStart data)),
                  (''errorMessage'', js_opt JStr (errorMessage data)),
                  (''success'', js_opt JBool (success data))];
               (k, w1) = fetch (config_host config @ ''/api/collect/forms'') payload w
           in (Some k, w1)))"

definition form_event_failed :: string where
  "form_event_failed = ''[Entrolytics] Failed to track form event:''"

definition trackFormEvent :: "FormEventData \<Rightarrow> World \<Rightarrow> settled \<times> World" where
  "trackFormEvent data w =
     (let (awaited, w1) = trackFormEvent_sync data w
      in case awaited of
           None \<Rightarrow> (Fulfilled, w1)
         | Some k \<Rightarrow> (Fulfilled, catch_fetch form_event_failed k w1))"

text \<open>
  A call \<open>trackFormEvent(...)\<close> that is not awaited, as the methods of a form
  tracker make it: the caller goes on after the part above, and the request, if one
  was started, is left pending with its \<open>catch\<close> block.
\<close>

definition trackFormEvent_unawaited :: "FormEventData \<Rightarrow> World \<Rightarrow> World" where
  "trackFormEvent_unawaited data w =
     (let (awaited, w1) = trackFormEvent_sync data w
      in case awaited of
           None \<Rightarrow> w1
         | Some k \<Rightarrow> w1\<lparr>pending := pending w1 @ [(k, form_event_failed)]\<rparr>)"

text \<open>
  The promise of the pending request \<open>k\<close> settles, in a later turn: the request is
  no longer pending and its \<open>catch\<close> block runs.
\<close>

definition settle :: "nat \<Rightarrow> World \<Rightarrow> World" where
  "settle k w =
     (case map_of (pending w) k of
        None \<Rightarrow> w
      | Some msg \<Rightarrow> catch_fetch msg k (w\<lparr>pending := filter (\<lambda>p. fst p \<noteq> k) (pending w)\<rparr>))"

subsection \<open>createFormTracker\<close>

text \<open>
  The variables the returned methods close over: the two arguments of
  \<open>createFormTracker\<close>, \<open>startTime\<close> (\<open>None\<close> is \<open>null\<close>) and the map
  \<open>fieldStartTimes\<close>.
\<close>

record FormTracker =
  tracker_formId :: string
  tracker_formName :: "string option"
  startTime :: "real option"
  fieldStartTimes :: "string \<Rightarrow> real option"

definition createFormTracker :: "string \<Rightarrow> string option \<Rightarrow> FormTracker" where
  "createFormTracker fid fname =
     \<lparr>tracker_formId = fid, tracker_formName = fname,
      startTime = None, fieldStartTimes = Map.empty\<rparr>"

text \<open>
  Truthiness of \<open>startTime\<close> and of \<open>fieldStartTimes.get(fieldName)\<close>: \<open>null\<close>,
  \<open>undefined\<close> and the number 0 are falsy. In a subtraction \<open>null\<close> counts as 0.
\<close>

definition truthy_number :: "real option \<Rightarrow> bool" where
  "truthy_number x = (case x of None \<Rightarrow> False | Some t \<Rightarrow> t \<noteq> 0)"

definition to_number :: "real option \<Rightarrow> real" where
  "to_number x = (case x of None \<Rightarrow> 0 | Some t \<Rightarrow> t)"

text \<open>\<open>x ? Date.now() - x : undefined\<close>\<close>

definition elapsed_since :: "real option \<Rightarrow> World \<Rightarrow> real option \<times> World" where
  "elapsed_since x w =
     (if truthy_number x
      then (let (now, w1) = Date_now w in (Some (now - to_number x), w1))
      else (None, w))"

text \<open>The object literal \<open>{ eventType, formId, formName }\<close>; the methods add fields to it.\<close>

definition form_event :: "FormEventType \<Rightarrow> FormTracker \<Rightarrow> FormEventData" where
  "form_event ty t =
     \<lparr>eventType = ty, formId = tracker_formId t, formName = tracker_formName t,
      urlPath = None, fieldName = None, fieldType = None, fieldIndex = None,
      timeOnField = None, timeSinceStart = None, errorMessage = None, success = None\<rparr>"

text \<open>
  Each method takes the tracker and the world and returns both, as they are when the
  method returns. No method awaits the promise of \<open>trackFormEvent\<close>.
\<close>

definition trackStart :: "FormTracker \<Rightarrow> World \<Rightarrow> FormTracker \<times> World" where
  "trackStart t w =
     (let (now, w1) = Date_now w;
          t1 = t\<lparr>startTime := Some now\<rparr>
      in (t1, (trackFormEvent_unawaited (form_event start t1) w1)))"

definition trackFieldFocus ::
  "string \<Rightarrow> string option \<Rightarrow> real option \<Rightarrow> FormTracker \<Rightarrow> World \<Rightarrow> FormTracker \<times> World" where
  "trackFieldFocus field ftype findex t w =
     (let (t1, w1) =
            (if \<not> truthy_number (startTime t)
             then (let (now, w0) = Date_now w;
                       t0 = t\<lparr>startTime := Some now\<rparr>
                   in (t0, (trackFormEvent_unawaited (form_event start t0) w0)))
             else (t, w));
          (now2, w2) = Date_now w1;
          t2 = t1\<lparr>fieldStartTimes := (fieldStartTimes t1)(field \<mapsto> now2)\<rparr>;
          (now3, w3) = Date_now w2
      in (t2, (trackFormEvent_unawaited
                    ((form_event field_focus t2)
                       \<lparr>fieldName := Some field, fieldType := ftype, fieldIndex := findex,
                        timeSinceStart := Some (now3 - to_number (startTime t2))\<rparr>) w3)))"

definition trackFieldBlur ::
  "string \<Rightarrow> string option \<Rightarrow> real option \<Rightarrow> FormTracker \<Rightarrow> World \<Rightarrow> FormTracker \<times> World" where
  "trackFieldBlur field ftype findex t w =
     (let fieldStart = fieldStartTimes t field;
          (onField, w1) = elapsed_since fieldStart w;
          (sinceStart, w2) = elapsed_since (startTime t) w1
      in (t, (trackFormEvent_unawaited
                   ((form_event field_blur t)
                      \<lparr>fieldName := Some field, fieldType := ftype, fieldIndex := findex,
                       timeOnField := onField, timeSinceStart := sinceStart\<rparr>) w2)))"

definition trackFieldError ::
  "string \<Rightarrow> string \<Rightarrow> string option \<Rightarrow> real option \<Rightarrow> FormTracker \<Rightarrow> World
     \<Rightarrow> FormTracker \<times> World" where
  "trackFieldError field message ftype findex t w =
     (let (sinceStart, w1) = elapsed_since (startTime t) w
      in (t, (trackFormEvent_unawaited
                   ((form_event field_error t)
                      \<lparr>fieldName := Some field, fieldType := ftype, fieldIndex := findex,
                       errorMessage := Some message, timeSinceStart := sinceStart\<rparr>) w1)))"

definition trackSubmit :: "bool \<Rightarrow> FormTracker \<Rightarrow> World \<Rightarrow> FormTracker \<times> World" where
  "trackSubmit ok t w =
     (let (sinceStart, w1) = elapsed_since (startTime t) w;
          w2 = (trackFormEvent_unawaited
                     ((form_event submit t)
                        \<lparr>success := Some ok, timeSinceStart := sinceStart\<rparr>) w1)
      in (t\<lparr>startTime := None, fieldStartTimes := Map.empty\<rparr>, w2))"

definition trackAbandon :: "FormTracker \<Rightarrow> World \<Rightarrow> FormTracker \<times> World" where
  "trackAbandon t w =
     (let (sinceStart, w1) = elapsed_since (startTime t) w
      in (t, (trackFormEvent_unawaited
                   ((form_event abandon t)\<lparr>timeSinceStart := sinceStart\<rparr>) w1)))"

subsection \<open>Sessions\<close>

text \<open>A call of one of the tracker's methods, with its arguments.\<close>

datatype call =
    TrackStart
  | TrackFieldFocus string "string option" "real option"
  | TrackFieldBlur string "string option" "real option"
  | TrackFieldError string string "string option" "real option"
  | TrackSubmit bool
  | TrackAbandon

fun invoke :: "call \<Rightarrow> FormTracker \<Rightarrow> World \<Rightarrow> FormTracker \<times> World" where
  "invoke TrackStart t w = trackStart t w"
| "invoke (TrackFieldFocus field ftype findex) t w = trackFieldFocus field ftype findex t w"
| "invoke (TrackFieldBlur field ftype findex) t w = trackFieldBlur field ftype findex t w"
| "invoke (TrackFieldError field message ftype findex) t w =
     trackFieldError field message ftype findex t w"
| "invoke (TrackSubmit ok) t w = trackSubmit ok t w"
| "invoke TrackAbandon t w = trackAbandon t w"

text \<open>
  The trackers that a history of calls can produce, the latest call first in the
  history. Each call runs in a world of its own, whatever its clock reads.
\<close>

inductive reached :: "call list \<Rightarrow> FormTracker \<Rightarrow> bool" where
  created: "reached [] (createFormTracker fid fname)"
| called: "reached cs t \<Longrightarrow> reached (c # cs) (fst (invoke c t w))"

text \<open>
  Whether a field was focused in the current session of a history: since the tracker
  was created or since the last \<open>trackSubmit\<close>.
\<close>

fun focused_in_session :: "string \<Rightarrow> call list \<Rightarrow> bool" where
  "focused_in_session field [] = False"
| "focused_in_session field (TrackSubmit ok # cs) = False"
| "focused_in_session field (TrackFieldFocus g ftype findex # cs) =
     (g = field \<or> focused_in_session field cs)"
| "focused_in_session field (c # cs) = focused_in_session field cs"

section \<open>Example inputs\<close>

text \<open>
  The option set in which every option with a documented default (\<open>@default\<close> in
  the interface's comments) is given that default explicitly.
\<close>

definition documented_defaults :: "string \<Rightarrow> EntrolyticsOptions" where
  "documented_defaults wid =
     \<lparr>websiteId = wid, host = Some ''https://entrolytics.click'', autoTrack = Some True,
      trackOutboundLinks = Some True, trackFileDownloads = Some False, respectDnt = Some False,
      domains = None, cacheScript = Some False, useEdgeRuntime = Some True, tag = None,
      excludeSearch = Some False, excludeHash = Some False\<rparr>"

text \<open>An option set in which every option differs from its documented default.\<close>

definition everything_changed :: EntrolyticsOptions where
  "everything_changed =
     \<lparr>websiteId = ''abc'', host = Some ''https://stats.example.org/'', autoTrack = Some False,
      trackOutboundLinks = Some False, trackFileDownloads = Some True, respectDnt = Some True,
      domains = Some [''a.com'', ''b.com''], cacheScript = Some True,
      useEdgeRuntime = Some False, tag = Some ''beta'', excludeSearch = Some True,
      excludeHash = Some True\<rparr>"

definition no_options :: PartialEntrolyticsOptions where
  "no_options =
     \<lparr>websiteId = None, host = None, autoTrack = None, trackOutboundLinks = None,
      trackFileDownloads = None, respectDnt = None, domains = None, cacheScript = None,
      useEdgeRuntime = None, tag = None, excludeSearch = None, excludeHash = None\<rparr>"

definition dev_env :: ImportMetaEnv where
  "dev_env =
     \<lparr>PUBLIC_ENTROLYTICS_WEBSITE_ID = None, VITE_ENTROLYTICS_WEBSITE_ID = Some [],
      PUBLIC_ENTROLYTICS_HOST = Some ''https://stats.example.org/'',
      VITE_ENTROLYTICS_HOST = None, DEV = True\<rparr>"

definition example_world :: World where
  "example_world =
     \<lparr>window_defined = True,
      entrolytics_config =
        Some \<lparr>config_websiteId = ''site-1'', config_host = ''https://stats.example.org''\<rparr>,
      location_href = ''https://example.org/signup'',
      location_pathname = ''/signup'',
      clock = (\<lambda>n. 1000 + 10 * real n), ticks = 0,
      tracker_at = (\<lambda>n. 2 \<le> n), checks = 0,
      fetch_rejects = (\<lambda>n. None), fetches = 0, pending = [],
      trace = []\<rparr>"

text \<open>The same browser with a network that fails every request.\<close>

definition offline_world :: World where
  "offline_world = example_world\<lparr>fetch_rejects := (\<lambda>n. Some ''TypeError: Failed to fetch'')\<rparr>"

text \<open>The same browser with a clock that stands at the epoch: it reads 0, 10, 20 and so on.\<close>

definition epoch_world :: World where
  "epoch_world = example_world\<lparr>clock := (\<lambda>n. 10 * real n)\<rparr>"

text \<open>The request that carries a form event, in the example browser.\<close>

definition form_request ::
  "string \<Rightarrow> string \<Rightarrow> js \<Rightarrow> js \<Rightarrow> js \<Rightarrow> js \<Rightarrow> js \<Rightarrow> js \<Rightarrow> effect" where
  "form_request ty fid field ftype findex onField sinceStart ok =
     Fetch ''https://stats.example.org/api/collect/forms'' ''POST''
       [(''Content-Type'', ''application/json'')]
       [(''website'', JStr ''site-1''), (''eventType'', JStr ty), (''formId'', JStr fid),
        (''formName'', JUndefined), (''urlPath'', JStr ''/signup''), (''fieldName'', field),
        (''fieldType'', ftype), (''fieldIndex'', findex), (''timeOnField'', onField),
        (''timeSinceStart'', sinceStart), (''errorMessage'', JUndefined), (''success'', ok)]
       True"

text \<open>A world outside a browser, as when a page is rendered on the server.\<close>

definition server_world :: World where
  "server_world = example_world\<lparr>window_defined := False, entrolytics_config := None\<rparr>"

definition example_vital :: WebVitalData where
  "example_vital =
     \<lparr>metric = LCP, vital_value = 1200, rating = Good, delta = None, vital_id = None,
      navigationType = None, attribution = None\<rparr>"

definition example_event :: FormEventData where
  "example_event =
     (form_event submit (createFormTracker ''contact-form'' None))\<lparr>success := Some True\<rparr>"

text \<open>A tracker whose \<open>trackStart\<close> read the clock at 0, and one started at 1000.\<close>

definition epoch_tracker :: FormTracker where
  "epoch_tracker =
     \<lparr>tracker_formId = ''signup'', tracker_formName = None, startTime = Some 0,
      fieldStartTimes = Map.empty\<rparr>"

definition example_tracker :: FormTracker where
  "example_tracker =
     \<lparr>tracker_formId = ''signup'', tracker_formName = None, startTime = Some 1000,
      fieldStartTimes = [''email'' \<mapsto> 1010]\<rparr>"

section \<open>Properties of the integration\<close>

lemma join_Cons: "join sep (x # xs) = x @ (if xs = [] then [] else sep @ join sep xs)"
  by (cases xs) simp_all

lemma push_if_append: "push_if c a xs = xs @ (if c then [a] else [])"
  by (simp add: push_if_def)

lemma or_default_True: "or_default x True = (x \<noteq> Some False)"
  by (cases x) (auto simp: or_default_def)

lemma or_default_False: "or_default x False = (x = Some True)"
  by (cases x) (auto simp: or_default_def)

lemma case_push:
  "(case x of None \<Rightarrow> xs | Some v \<Rightarrow> xs @ f v) = xs @ (case x of None \<Rightarrow> [] | Some v \<Rightarrow> f v)"
  by (cases x) simp_all

lemma attributes_eq:
  \<open>attributes options =
     [''src="'' @ scriptUrl options @ ''"'',
      ''data-website-id="'' @ websiteId options @ ''"'',
      ''defer'']
     @ (if autoTrack options = Some False then [''data-auto-track="false"''] else [])
     @ (if trackOutboundLinks options \<noteq> Some False
        then [''data-track-outbound-links="true"''] else [])
     @ (if trackFileDownloads options = Some True
        then [''data-track-file-downloads="true"''] else [])
     @ (if respectDnt options = Some True then [''data-do-not-track="true"''] else [])
     @ (case domains options of
          None \<Rightarrow> []
        | Some ds \<Rightarrow> if ds \<noteq> [] then [''data-domains="'' @ join '','' ds @ ''"''] else [])
     @ (case tag options of
          None \<Rightarrow> []
        | Some t \<Rightarrow> if t \<noteq> [] then [''data-tag="'' @ t @ ''"''] else [])
     @ (if excludeSearch options = Some True then [''data-exclude-search="true"''] else [])
     @ (if excludeHash options = Some True then [''data-exclude-hash="true"''] else [])\<close>
  unfolding attributes_def Let_def push_if_append case_push or_default_True or_default_False
  by (simp only: append_assoc not_not length_greater_0_conv)

lemma mem_set_if: "(a \<in> set (if c then [x] else [])) = (c \<and> a = x)"
  by (cases c) simp_all

lemma mem_set_case:
  "(a \<in> set (case x of None \<Rightarrow> [] | Some v \<Rightarrow> if p v then [f v] else [])) =
     (\<exists>v. x = Some v \<and> p v \<and> a = f v)"
  by (cases x) auto

lemma mem_attributes:
  \<open>(''data-auto-track="false"'' \<in> set (attributes options)) = (autoTrack options = Some False)\<close>
  \<open>(''data-track-outbound-links="true"'' \<in> set (attributes options)) =
     (trackOutboundLinks options \<noteq> Some False)\<close>
  \<open>(''data-track-file-downloads="true"'' \<in> set (attributes options)) =
     (trackFileDownloads options = Some True)\<close>
  \<open>(''data-do-not-track="true"'' \<in> set (attributes options)) = (respectDnt options = Some True)\<close>
  \<open>(''data-exclude-search="true"'' \<in> set (attributes options)) =
     (excludeSearch options = Some True)\<close>
  \<open>(''data-exclude-hash="true"'' \<in> set (attributes options)) =
     (excludeHash options = Some True)\<close>
  unfolding attributes_eq
  by (simp_all add: mem_set_if mem_set_case split del: if_split)

lemma bex_set_if: "(\<exists>a\<in>set (if c then [x] else []). P a) = (c \<and> P x)"
  by (cases c) simp_all

lemma bex_set_case:
  "(\<exists>a\<in>set (case x of None \<Rightarrow> [] | Some v \<Rightarrow> if p v then [f v] else []). P a) =
     (\<exists>v. x = Some v \<and> p v \<and> P (f v))"
  by (cases x) auto

lemma mem_attributes_prefix:
  \<open>(\<exists>a\<in>set (attributes options). prefix ''data-domains='' a) =
     (\<exists>ds. domains options = Some ds \<and> ds \<noteq> [])\<close>
  \<open>(\<exists>a\<in>set (attributes options). prefix ''data-tag='' a) =
     (\<exists>t. tag options = Some t \<and> t \<noteq> [])\<close>
  unfolding attributes_eq set_append bex_Un bex_set_if bex_set_case
  by simp_all

text \<open>
  C1 (as amended): for every option set, the tag holds, besides \<open>src\<close>,
  \<open>data-website-id\<close> and \<open>defer\<close>, exactly these optional attributes:
  \<open>data-auto-track\<close> when \<open>autoTrack\<close> is false; \<open>data-track-outbound-links\<close>
  when \<open>trackOutboundLinks\<close> is true or unset (its documented default), and not when
  it is false; \<open>data-track-file-downloads\<close> when \<open>trackFileDownloads\<close> is true;
  \<open>data-do-not-track\<close> when \<open>respectDnt\<close> is true; \<open>data-domains\<close> for a
  non-empty list; \<open>data-tag\<close> for a non-empty string; \<open>data-exclude-search\<close> and
  \<open>data-exclude-hash\<close> when their option is true. Each of them is among the
  attributes exactly under its condition.
\<close>

theorem generateScriptTag_attributes:
  \<open>generateScriptTag options =
     ''<script '' @ join '' ''
       ([''src="'' @ scriptUrl options @ ''"'',
         ''data-website-id="'' @ websiteId options @ ''"'',
         ''defer'']
        @ (if autoTrack options = Some False then [''data-auto-track="false"''] else [])
        @ (if trackOutboundLinks options \<noteq> Some False
           then [''data-track-outbound-links="true"''] else [])
        @ (if trackFileDownloads options = Some True
           then [''data-track-file-downloads="true"''] else [])
        @ (if respectDnt options = Some True then [''data-do-not-track="true"''] else [])
        @ (case domains options of
             None \<Rightarrow> []
           | Some ds \<Rightarrow> if ds \<noteq> [] then [''data-domains="'' @ join '','' ds @ ''"''] else [])
        @ (case tag options of
             None \<Rightarrow> []
           | Some t \<Rightarrow> if t \<noteq> [] then [''data-tag="'' @ t @ ''"''] else [])
        @ (if excludeSearch options = Some True then [''data-exclude-search="true"''] else [])
        @ (if excludeHash options = Some True then [''data-exclude-hash="true"''] else []))
     @ ''></script>''
   \<and> generateScriptTag options = ''<script '' @ join '' '' (attributes options) @ ''></script>''
   \<and> (''data-auto-track="false"'' \<in> set (attributes options)) = (autoTrack options = Some False)
   \<and> (''data-track-outbound-links="true"'' \<in> set (attributes options)) =
       (trackOutboundLinks options \<noteq> Some False)
   \<and> (''data-track-file-downloads="true"'' \<in> set (attributes options)) =
       (trackFileDownloads options = Some True)
   \<and> (''data-do-not-track="true"'' \<in> set (attributes options)) =
       (respectDnt options = Some True)
   \<and> (\<exists>a\<in>set (attributes options). prefix ''data-domains='' a) =
       (\<exists>ds. domains options = Some ds \<and> ds \<noteq> [])
   \<and> (\<exists>a\<in>set (attributes options). prefix ''data-tag='' a) =
       (\<exists>t. tag options = Some t \<and> t \<noteq> [])
   \<and> (''data-exclude-search="true"'' \<in> set (attributes options)) =
       (excludeSearch options = Some True)
   \<and> (''data-exclude-hash="true"'' \<in> set (attributes options)) =
       (excludeHash options = Some True)\<close>
  unfolding mem_attributes mem_attributes_prefix
  by (simp add: generateScriptTag_def attributes_eq split del: if_split
        cong: if_cong option.case_cong)

text \<open>
  Every option away from its default: seven optional attributes, and none for outbound
  links.
\<close>

theorem generateScriptTag_attributes_witness:
  \<open>generateScriptTag everything_changed =
     ''<script src="https://stats.example.org/script.js" data-website-id="abc" defer data-auto-track="false" data-track-file-downloads="true" data-do-not-track="true" data-domains="a.com,b.com" data-tag="beta" data-exclude-search="true" data-exclude-hash="true"></script>''
   \<and> ''data-track-outbound-links="true"'' \<notin> set (attributes everything_changed)\<close>
  using generateScriptTag_attributes [of everything_changed]
  by (simp add: everything_changed_def scriptUrl_def scriptPath_def or_default_def
        replace_trailing_slash_def)

text \<open>
  C1 as stated fails: with every option at its documented default, the tag carries
  \<open>data-track-outbound-links\<close>.
\<close>

theorem generateScriptTag_defaults_counterexample:
  \<open>trackOutboundLinks (documented_defaults ''abc'') = Some True \<and>
   generateScriptTag (documented_defaults ''abc'') =
     ''<script src="https://entrolytics.click/script-edge.js" data-website-id="abc" defer data-track-outbound-links="true"></script>''\<close>
  by (simp add: generateScriptTag_def attributes_eq documented_defaults_def scriptUrl_def
      scriptPath_def or_default_def replace_trailing_slash_def)

text \<open>
  C5: for every host value, the script path is \<open>/script-edge.js\<close> when
  \<open>useEdgeRuntime\<close> is true or unset and \<open>/script.js\<close> when it is false: the tag
  starts with the \<open>src\<close> attribute, whose URL is the host (the default host when
  unset) without its one trailing slash, followed by that path.
\<close>

theorem generateScriptTag_script_path:
  \<open>\<exists>rest. generateScriptTag options =
     ''<script src="'' @ replace_trailing_slash (or_default (host options) DEFAULT_HOST)
       @ (if useEdgeRuntime options = Some False then ''/script.js'' else ''/script-edge.js'')
       @ ''" data-website-id="'' @ rest\<close>
proof -
  obtain rest where r: \<open>attributes options =
     [''src="'' @ scriptUrl options @ ''"'',
      ''data-website-id="'' @ websiteId options @ ''"'',
      ''defer''] @ rest\<close>
    using attributes_eq by blast
  have p: "scriptPath options =
      (if useEdgeRuntime options = Some False then ''/script.js'' else ''/script-edge.js'')"
    by (simp add: scriptPath_def or_default_True)
  show ?thesis
    unfolding generateScriptTag_def r scriptUrl_def p
    by (simp add: join_Cons)
qed

lemma truthy_js_or: "truthy (js_or a b) = (truthy a \<or> truthy b)"
  by (simp add: js_or_def)

lemma truthy_resolve_websiteId:
  "truthy (resolve_websiteId options env) =
     (truthy (websiteId options) \<or> truthy (PUBLIC_ENTROLYTICS_WEBSITE_ID env)
      \<or> truthy (VITE_ENTROLYTICS_WEBSITE_ID env))"
  by (simp add: resolve_websiteId_def truthy_js_or)

lemma entrolytics_cases:
  "entrolytics options meta_env =
     (if truthy (resolve_websiteId options (env_or_empty meta_env))
      then ([], Inr (integration options
                      (or_default (resolve_websiteId options (env_or_empty meta_env)) [])
                      (resolve_host options (env_or_empty meta_env))))
      else ((if DEV (env_or_empty meta_env) then [missing_websiteId_warning] else []),
            Inl websiteId_required))"
  by (cases "resolve_websiteId options (env_or_empty meta_env)")
     (simp_all add: entrolytics_def Let_def truthy_def or_default_def)

text \<open>
  C2: when neither the option nor \<open>PUBLIC_ENTROLYTICS_WEBSITE_ID\<close> nor
  \<open>VITE_ENTROLYTICS_WEBSITE_ID\<close> holds a non-empty identifier, the factory throws the
  configuration error whatever the other fields are, having first written the warning
  when \<open>DEV\<close> is set (and nothing otherwise); when one of the three holds an
  identifier it returns an integration and writes nothing.
\<close>

theorem entrolytics_websiteId_required:
  "(\<not> truthy (websiteId options)
      \<and> \<not> truthy (PUBLIC_ENTROLYTICS_WEBSITE_ID (env_or_empty meta_env))
      \<and> \<not> truthy (VITE_ENTROLYTICS_WEBSITE_ID (env_or_empty meta_env))
    \<longrightarrow> entrolytics options meta_env =
          ((if DEV (env_or_empty meta_env) then [missing_websiteId_warning] else []),
           Inl websiteId_required))
   \<and> (truthy (websiteId options)
        \<or> truthy (PUBLIC_ENTROLYTICS_WEBSITE_ID (env_or_empty meta_env))
        \<or> truthy (VITE_ENTROLYTICS_WEBSITE_ID (env_or_empty meta_env))
      \<longrightarrow> (\<exists>i. entrolytics options meta_env = ([], Inr i)))"
  by (simp add: entrolytics_cases truthy_resolve_websiteId)

text \<open>
  The three cases at concrete inputs: a development build with only empty identifiers,
  no options and no environment at all, and an identifier in the fallback variable.
\<close>

theorem entrolytics_websiteId_required_witness:
  "entrolytics (no_options\<lparr>websiteId := Some [], tag := Some ''beta''\<rparr>) (Some dev_env) =
     ([missing_websiteId_warning], Inl websiteId_required)
   \<and> entrolytics no_options None = ([], Inl websiteId_required)
   \<and> (\<exists>i. entrolytics no_options
             (Some (dev_env\<lparr>VITE_ENTROLYTICS_WEBSITE_ID := Some ''site-1''\<rparr>)) = ([], Inr i))"
  using entrolytics_websiteId_required
          [of "no_options\<lparr>websiteId := Some [], tag := Some ''beta''\<rparr>" "Some dev_env"]
        entrolytics_websiteId_required [of no_options None]
        entrolytics_websiteId_required
          [of no_options "Some (dev_env\<lparr>VITE_ENTROLYTICS_WEBSITE_ID := Some ''site-1''\<rparr>)"]
  by (simp add: no_options_def dev_env_def env_or_empty_def truthy_def)

lemma replace_trailing_slash_snoc: "replace_trailing_slash (h @ ''/'') = h"
  by (simp add: replace_trailing_slash_def)

lemma replace_trailing_slash_id:
  "h = [] \<or> last h \<noteq> CHR ''/'' \<Longrightarrow> replace_trailing_slash h = h"
  by (auto simp: replace_trailing_slash_def)

lemma scriptUrl_host:
  "scriptUrl (options\<lparr>host := Some h\<rparr>) = replace_trailing_slash h @ scriptPath options"
  by (simp add: scriptUrl_def scriptPath_def or_default_def)

lemma generateScriptTag_host:
  "replace_trailing_slash h = replace_trailing_slash h' \<Longrightarrow>
   generateScriptTag (options\<lparr>host := Some h\<rparr>) = generateScriptTag (options\<lparr>host := Some h'\<rparr>)"
  unfolding generateScriptTag_def attributes_eq scriptUrl_host
  by (simp split del: if_split cong: if_cong option.case_cong)

lemma finalOptions_host:
  "finalOptions options wid h = (finalOptions options wid [])\<lparr>host := Some h\<rparr>"
  by (simp add: finalOptions_def)

lemma integration_host:
  "replace_trailing_slash h = replace_trailing_slash h' \<Longrightarrow>
   integration options wid h = integration options wid h'"
  unfolding integration_def configScript_def
  by (simp add: generateScriptTag_host [of h h'] finalOptions_host [of _ _ h]
        finalOptions_host [of _ _ h'])

lemma resolve_host_explicit:
  "h \<noteq> [] \<Longrightarrow> resolve_host (options\<lparr>host := Some h\<rparr>) env = h"
  by (simp add: resolve_host_def js_or_def js_or_str_def truthy_def)

lemma resolve_websiteId_host:
  "resolve_websiteId (options\<lparr>host := x\<rparr>) env = resolve_websiteId options env"
  by (simp add: resolve_websiteId_def)

lemma integration_host_update:
  "integration (options\<lparr>host := x\<rparr>) wid h = integration options wid h"
  by (simp add: integration_def finalOptions_def)

text \<open>
  C6: for a host \<open>h\<close> that does not end in a slash, \<open>h/\<close> and \<open>h\<close> are
  normalised to the same string, and only one slash is removed (\<open>h//\<close> becomes
  \<open>h/\<close>). So the script tag, the configuration snippet and everything the
  integration injects are the same for \<open>h/\<close> and \<open>h\<close>, for every other option and
  every environment. The factory reads an empty \<open>host\<close> option as no host at all, so
  there \<open>h\<close> is a host: not empty.
\<close>

theorem host_trailing_slash:
  assumes "h = [] \<or> last h \<noteq> CHR ''/''"
  shows "replace_trailing_slash (h @ ''/'') = replace_trailing_slash h
    \<and> replace_trailing_slash (h @ ''//'') = h @ ''/''
    \<and> generateScriptTag (options\<lparr>host := Some (h @ ''/'')\<rparr>) =
        generateScriptTag (options\<lparr>host := Some h\<rparr>)
    \<and> configScript wid (h @ ''/'') = configScript wid h
    \<and> integration partial wid (h @ ''/'') = integration partial wid h
    \<and> (h \<noteq> [] \<longrightarrow>
         entrolytics (partial\<lparr>host := Some (h @ ''/'')\<rparr>) meta_env =
         entrolytics (partial\<lparr>host := Some h\<rparr>) meta_env)"
proof -
  have eq: "replace_trailing_slash (h @ ''/'') = replace_trailing_slash h"
    using assms by (simp add: replace_trailing_slash_snoc replace_trailing_slash_id)
  have two: "replace_trailing_slash (h @ ''//'') = h @ ''/''"
    using replace_trailing_slash_snoc [of "h @ ''/''"] by simp
  have tag: "generateScriptTag (options\<lparr>host := Some (h @ ''/'')\<rparr>) =
        generateScriptTag (options\<lparr>host := Some h\<rparr>)"
    by (rule generateScriptTag_host [OF eq])
  have snippet: "configScript wid (h @ ''/'') = configScript wid h"
    by (simp add: configScript_def eq)
  have factory: "entrolytics (partial\<lparr>host := Some (h @ ''/'')\<rparr>) meta_env =
        entrolytics (partial\<lparr>host := Some h\<rparr>) meta_env" if "h \<noteq> []"
    using that integration_host [OF eq]
    by (simp add: entrolytics_cases resolve_host_explicit resolve_websiteId_host
          integration_host_update)
  from eq two tag snippet factory integration_host [OF eq] show ?thesis
    by blast
qed

text \<open>The hosts \<open>https://x.com/\<close> and \<open>https://x.com\<close>, with an identifier given as an option.\<close>

theorem host_trailing_slash_witness:
  \<open>generateScriptTag (documented_defaults ''abc''\<lparr>host := Some ''https://x.com/''\<rparr>) =
     generateScriptTag (documented_defaults ''abc''\<lparr>host := Some ''https://x.com''\<rparr>)
   \<and> integration (no_options\<lparr>websiteId := Some ''abc''\<rparr>) ''abc'' ''https://x.com/'' =
       integration (no_options\<lparr>websiteId := Some ''abc''\<rparr>) ''abc'' ''https://x.com''
   \<and> entrolytics (no_options\<lparr>websiteId := Some ''abc'', host := Some ''https://x.com/''\<rparr>) None =
       entrolytics (no_options\<lparr>websiteId := Some ''abc'', host := Some ''https://x.com''\<rparr>) None
   \<and> generateScriptTag (documented_defaults ''abc''\<lparr>host := Some ''https://x.com/''\<rparr>) =
     ''<script src="https://x.com/script-edge.js" data-website-id="abc" defer data-track-outbound-links="true"></script>''\<close>
  using host_trailing_slash [of "''https://x.com''" "documented_defaults ''abc''" "''abc''"
          "no_options\<lparr>websiteId := Some ''abc''\<rparr>" None]
  by (simp add: generateScriptTag_def attributes_def push_if_def documented_defaults_def
        scriptUrl_def scriptPath_def or_default_def replace_trailing_slash_def)

lemma ball_set_if: "(\<forall>a\<in>set (if c then [x] else []). P a) = (c \<longrightarrow> P x)"
  by (cases c) simp_all

lemma ball_set_case:
  "(\<forall>a\<in>set (case x of None \<Rightarrow> [] | Some v \<Rightarrow> f v). P a) =
     (\<forall>v. x = Some v \<longrightarrow> (\<forall>a\<in>set (f v). P a))"
  by (cases x) simp_all

lemma no_tag_attribute:
  \<open>tag options = None \<or> tag options = Some [] \<Longrightarrow>
   \<forall>a\<in>set (attributes options). \<not> prefix ''data-tag='' a\<close>
  unfolding attributes_eq
  by (auto simp add: ball_set_if ball_set_case ball_Un split del: if_split)

lemma no_domains_attribute:
  \<open>domains options = None \<or> domains options = Some [] \<Longrightarrow>
   \<forall>a\<in>set (attributes options). \<not> prefix ''data-domains='' a\<close>
  unfolding attributes_eq
  by (auto simp add: ball_set_if ball_set_case ball_Un split del: if_split)

lemma generateScriptTag_empty_tag:
  "generateScriptTag (options\<lparr>tag := Some []\<rparr>) = generateScriptTag (options\<lparr>tag := None\<rparr>)"
  unfolding generateScriptTag_def attributes_eq
  by (simp add: scriptUrl_def scriptPath_def split del: if_split cong: if_cong option.case_cong)

lemma generateScriptTag_empty_domains:
  "generateScriptTag (options\<lparr>domains := Some []\<rparr>) =
   generateScriptTag (options\<lparr>domains := None\<rparr>)"
  unfolding generateScriptTag_def attributes_eq
  by (simp add: scriptUrl_def scriptPath_def split del: if_split cong: if_cong option.case_cong)

lemma resolve_websiteId_empty:
  "resolve_websiteId (partial\<lparr>websiteId := Some []\<rparr>) env =
     js_or (PUBLIC_ENTROLYTICS_WEBSITE_ID env) (VITE_ENTROLYTICS_WEBSITE_ID env)"
  "resolve_websiteId (partial\<lparr>websiteId := None\<rparr>) env =
     js_or (PUBLIC_ENTROLYTICS_WEBSITE_ID env) (VITE_ENTROLYTICS_WEBSITE_ID env)"
  by (simp_all add: resolve_websiteId_def js_or_def truthy_def)

lemma resolve_host_websiteId:
  "resolve_host (partial\<lparr>websiteId := x\<rparr>) env = resolve_host partial env"
  by (simp add: resolve_host_def)

lemma integration_websiteId_update:
  "integration (partial\<lparr>websiteId := x\<rparr>) wid h = integration partial wid h"
  by (simp add: integration_def finalOptions_def)

lemma entrolytics_empty_websiteId:
  "entrolytics (partial\<lparr>websiteId := Some []\<rparr>) meta_env =
     (let env = env_or_empty meta_env;
          wid = js_or (PUBLIC_ENTROLYTICS_WEBSITE_ID env) (VITE_ENTROLYTICS_WEBSITE_ID env)
      in if truthy wid
         then ([], Inr (integration partial (or_default wid []) (resolve_host partial env)))
         else ((if DEV env then [missing_websiteId_warning] else []), Inl websiteId_required))"
  by (simp add: entrolytics_cases resolve_websiteId_empty resolve_host_websiteId
        integration_websiteId_update Let_def)

text \<open>
  C10: an empty \<open>websiteId\<close> option is treated as an absent one. The factory then
  takes \<open>PUBLIC_ENTROLYTICS_WEBSITE_ID\<close> when it is non-empty, otherwise
  \<open>VITE_ENTROLYTICS_WEBSITE_ID\<close> when that is non-empty, and succeeds with it;
  it throws only when the option and both variables are empty or absent. Likewise an
  empty \<open>tag\<close> and an empty \<open>domains\<close> list give the same tag as an absent one, with
  no \<open>data-tag\<close> and no \<open>data-domains\<close> attribute.
\<close>

theorem empty_values_are_absent:
  \<open>entrolytics (partial\<lparr>websiteId := Some []\<rparr>) meta_env =
     entrolytics (partial\<lparr>websiteId := None\<rparr>) meta_env
   \<and> entrolytics (partial\<lparr>websiteId := Some []\<rparr>) meta_env =
     (let env = env_or_empty meta_env;
          public = PUBLIC_ENTROLYTICS_WEBSITE_ID env;
          vite = VITE_ENTROLYTICS_WEBSITE_ID env
      in if truthy public
         then ([], Inr (integration partial (or_default public []) (resolve_host partial env)))
         else if truthy vite
         then ([], Inr (integration partial (or_default vite []) (resolve_host partial env)))
         else ((if DEV env then [missing_websiteId_warning] else []), Inl websiteId_required))
   \<and> ((\<exists>warnings. entrolytics partial meta_env = (warnings, Inl websiteId_required)) =
       (\<not> truthy (websiteId partial)
        \<and> \<not> truthy (PUBLIC_ENTROLYTICS_WEBSITE_ID (env_or_empty meta_env))
        \<and> \<not> truthy (VITE_ENTROLYTICS_WEBSITE_ID (env_or_empty meta_env))))
   \<and> generateScriptTag (options\<lparr>tag := Some []\<rparr>) = generateScriptTag (options\<lparr>tag := None\<rparr>)
   \<and> (\<forall>a\<in>set (attributes (options\<lparr>tag := Some []\<rparr>)). \<not> prefix ''data-tag='' a)
   \<and> generateScriptTag (options\<lparr>domains := Some []\<rparr>) =
       generateScriptTag (options\<lparr>domains := None\<rparr>)
   \<and> (\<forall>a\<in>set (attributes (options\<lparr>domains := Some []\<rparr>)). \<not> prefix ''data-domains='' a)\<close>
proof -
  have a: "entrolytics (partial\<lparr>websiteId := Some []\<rparr>) meta_env =
     entrolytics (partial\<lparr>websiteId := None\<rparr>) meta_env"
    by (simp add: entrolytics_cases resolve_websiteId_empty resolve_host_websiteId
          integration_websiteId_update)
  have b: "entrolytics (partial\<lparr>websiteId := Some []\<rparr>) meta_env =
     (let env = env_or_empty meta_env;
          public = PUBLIC_ENTROLYTICS_WEBSITE_ID env;
          vite = VITE_ENTROLYTICS_WEBSITE_ID env
      in if truthy public
         then ([], Inr (integration partial (or_default public []) (resolve_host partial env)))
         else if truthy vite
         then ([], Inr (integration partial (or_default vite []) (resolve_host partial env)))
         else ((if DEV env then [missing_websiteId_warning] else []), Inl websiteId_required))"
    by (simp add: entrolytics_empty_websiteId Let_def js_or_def)
  have c: "(\<exists>warnings. entrolytics partial meta_env = (warnings, Inl websiteId_required)) =
       (\<not> truthy (websiteId partial)
        \<and> \<not> truthy (PUBLIC_ENTROLYTICS_WEBSITE_ID (env_or_empty meta_env))
        \<and> \<not> truthy (VITE_ENTROLYTICS_WEBSITE_ID (env_or_empty meta_env)))"
    by (simp add: entrolytics_cases truthy_resolve_websiteId)
  have d: "\<forall>a\<in>set (attributes (options\<lparr>tag := Some []\<rparr>)). \<not> prefix ''data-tag='' a"
    by (rule no_tag_attribute) simp
  have e: "\<forall>a\<in>set (attributes (options\<lparr>domains := Some []\<rparr>)). \<not> prefix ''data-domains='' a"
    by (rule no_domains_attribute) simp
  from a b c d e generateScriptTag_empty_tag generateScriptTag_empty_domains
  show ?thesis by blast
qed

text \<open>
  An empty option with an empty public variable and an identifier in the fallback
  variable; every source empty in a development build; the attributes for an empty tag
  and for an empty list of domains.
\<close>

theorem empty_values_are_absent_witness:
  \<open>entrolytics (no_options\<lparr>websiteId := Some []\<rparr>)
     (Some (dev_env\<lparr>PUBLIC_ENTROLYTICS_WEBSITE_ID := Some [],
                    VITE_ENTROLYTICS_WEBSITE_ID := Some ''site-1''\<rparr>)) =
     ([], Inr (integration no_options ''site-1'' ''https://stats.example.org/''))
   \<and> entrolytics (no_options\<lparr>websiteId := Some []\<rparr>) (Some dev_env) =
     ([missing_websiteId_warning], Inl websiteId_required)
   \<and> attributes (documented_defaults ''abc''\<lparr>tag := Some []\<rparr>) =
     [''src="https://entrolytics.click/script-edge.js"'', ''data-website-id="abc"'', ''defer'',
      ''data-track-outbound-links="true"'']
   \<and> attributes (documented_defaults ''abc''\<lparr>domains := Some []\<rparr>) =
     [''src="https://entrolytics.click/script-edge.js"'', ''data-website-id="abc"'', ''defer'',
      ''data-track-outbound-links="true"'']\<close>
proof -
  note public_empty = empty_values_are_absent [of no_options
      "Some (dev_env\<lparr>PUBLIC_ENTROLYTICS_WEBSITE_ID := Some [],
                       VITE_ENTROLYTICS_WEBSITE_ID := Some ''site-1''\<rparr>)"
      "documented_defaults ''abc''"]
  note all_empty =
    empty_values_are_absent [of no_options "Some dev_env" "documented_defaults ''abc''"]
  have a: "entrolytics (no_options\<lparr>websiteId := Some []\<rparr>)
     (Some (dev_env\<lparr>PUBLIC_ENTROLYTICS_WEBSITE_ID := Some [],
                    VITE_ENTROLYTICS_WEBSITE_ID := Some ''site-1''\<rparr>)) =
     ([], Inr (integration no_options ''site-1'' ''https://stats.example.org/''))"
    using public_empty [THEN conjunct2, THEN conjunct1]
    by (simp add: dev_env_def env_or_empty_def truthy_def or_default_def
          resolve_host_def js_or_def js_or_str_def Let_def no_options_def)
  have b: "entrolytics (no_options\<lparr>websiteId := Some []\<rparr>) (Some dev_env) =
     ([missing_websiteId_warning], Inl websiteId_required)"
    using all_empty [THEN conjunct2, THEN conjunct1]
    by (simp add: dev_env_def env_or_empty_def truthy_def Let_def)
  have c: \<open>attributes (documented_defaults ''abc''\<lparr>tag := Some []\<rparr>) =
     [''src="https://entrolytics.click/script-edge.js"'', ''data-website-id="abc"'', ''defer'',
      ''data-track-outbound-links="true"'']\<close>
    by (simp add: attributes_def push_if_def Let_def
        documented_defaults_def scriptUrl_def scriptPath_def replace_trailing_slash_def
        or_default_def)
  have d: \<open>attributes (documented_defaults ''abc''\<lparr>domains := Some []\<rparr>) =
     [''src="https://entrolytics.click/script-edge.js"'', ''data-website-id="abc"'', ''defer'',
      ''data-track-outbound-links="true"'']\<close>
    by (simp add: attributes_def push_if_def Let_def
        documented_defaults_def scriptUrl_def scriptPath_def replace_trailing_slash_def
        or_default_def)
  from a b c d show ?thesis by simp
qed

section \<open>Properties of the client module\<close>

lemma trackFormEvent_unawaited_clock [simp]:
  "clock (trackFormEvent_unawaited e w) = clock w"
  "ticks (trackFormEvent_unawaited e w) = ticks w"
  by (simp_all add: trackFormEvent_unawaited_def trackFormEvent_sync_def fetch_def
        console_warn_def Let_def split: option.split)

lemma elapsed_since_eq:
  "elapsed_since x w =
     (if truthy_number x
      then (Some (clock w (ticks w) - to_number x), w\<lparr>ticks := Suc (ticks w)\<rparr>)
      else (None, w))"
  by (simp add: elapsed_since_def Date_now_def)

lemma fst_elapsed_methods [simp]:
  "fst (trackFieldBlur field ftype findex t w) = t"
  "fst (trackFieldError field message ftype findex t w) = t"
  "fst (trackAbandon t w) = t"
  "fst (trackSubmit ok t w) = t\<lparr>startTime := None, fieldStartTimes := Map.empty\<rparr>"
  by (simp_all add: trackFieldBlur_def trackFieldError_def trackAbandon_def trackSubmit_def
        Let_def split: prod.split)

lemma fst_trackStart [simp]:
  "fst (trackStart t w) = t\<lparr>startTime := Some (clock w (ticks w))\<rparr>"
  by (simp add: trackStart_def Date_now_def Let_def)

lemma trackFieldFocus_new:
  "\<not> truthy_number (startTime t) \<Longrightarrow>
   trackFieldFocus field ftype findex t w =
     (let t1 = t\<lparr>startTime := Some (clock w (ticks w))\<rparr>;
          w1 = trackFormEvent_unawaited (form_event start t1) (w\<lparr>ticks := Suc (ticks w)\<rparr>);
          t2 = t1\<lparr>fieldStartTimes := (fieldStartTimes t)(field \<mapsto> clock w (Suc (ticks w)))\<rparr>
      in (t2, trackFormEvent_unawaited
                ((form_event field_focus t2)
                   \<lparr>fieldName := Some field, fieldType := ftype, fieldIndex := findex,
                    timeSinceStart :=
                      Some (clock w (Suc (Suc (ticks w))) - clock w (ticks w))\<rparr>)
                (w1\<lparr>ticks := Suc (Suc (Suc (ticks w)))\<rparr>)))"
  by (simp add: trackFieldFocus_def Date_now_def Let_def to_number_def)

lemma trackFieldFocus_running:
  "truthy_number (startTime t) \<Longrightarrow>
   trackFieldFocus field ftype findex t w =
     (let t2 = t\<lparr>fieldStartTimes := (fieldStartTimes t)(field \<mapsto> clock w (ticks w))\<rparr>
      in (t2, trackFormEvent_unawaited
                ((form_event field_focus t2)
                   \<lparr>fieldName := Some field, fieldType := ftype, fieldIndex := findex,
                    timeSinceStart :=
                      Some (clock w (Suc (ticks w)) - to_number (startTime t))\<rparr>)
                (w\<lparr>ticks := Suc (Suc (ticks w))\<rparr>)))"
  by (simp add: trackFieldFocus_def Date_now_def Let_def)

lemma fieldStartTimes_trackFieldFocus:
  "(fieldStartTimes (fst (trackFieldFocus g ftype findex t w)) field = None) =
     (g \<noteq> field \<and> fieldStartTimes t field = None)"
  by (cases "truthy_number (startTime t)")
     (simp_all add: trackFieldFocus_new trackFieldFocus_running Let_def)

lemma reached_fieldStartTimes:
  "reached cs t \<Longrightarrow> (fieldStartTimes t field = None) = (\<not> focused_in_session field cs)"
proof (induction rule: reached.induct)
  case (created fid fname)
  show ?case by (simp add: createFormTracker_def)
next
  case (called cs t c w)
  then show ?case
    by (cases c) (auto simp: fieldStartTimes_trackFieldFocus)
qed

text \<open>
  C3: whatever the state of a tracker, \<open>trackSubmit\<close> leaves it as
  \<open>createFormTracker\<close> made it: no start time and no field times. A
  \<open>trackFieldFocus\<close> after it therefore does what it does on a new tracker: it
  reads the clock for a new start time, calls \<open>trackFormEvent\<close> with \<open>start\<close>,
  records the field's time and calls \<open>trackFormEvent\<close> with \<open>field_focus\<close> and the
  time elapsed since the new start. Neither call is awaited.
\<close>

theorem trackSubmit_resets_session:
  "fst (trackSubmit ok t w) = createFormTracker (tracker_formId t) (tracker_formName t)
   \<and> trackFieldFocus field ftype findex (fst (trackSubmit ok t w)) w' =
       trackFieldFocus field ftype findex
         (createFormTracker (tracker_formId t) (tracker_formName t)) w'
   \<and> trackFieldFocus field ftype findex (fst (trackSubmit ok t w)) w' =
       (let t1 = \<lparr>tracker_formId = tracker_formId t, tracker_formName = tracker_formName t,
                  startTime = Some (clock w' (ticks w')), fieldStartTimes = Map.empty\<rparr>;
            w1 = trackFormEvent_unawaited (form_event start t1)
                   (w'\<lparr>ticks := Suc (ticks w')\<rparr>);
            t2 = t1\<lparr>fieldStartTimes := [field \<mapsto> clock w' (Suc (ticks w'))]\<rparr>
        in (t2, trackFormEvent_unawaited
                  ((form_event field_focus t2)
                     \<lparr>fieldName := Some field, fieldType := ftype, fieldIndex := findex,
                      timeSinceStart :=
                        Some (clock w' (Suc (Suc (ticks w'))) - clock w' (ticks w'))\<rparr>)
                  (w1\<lparr>ticks := Suc (Suc (Suc (ticks w')))\<rparr>)))"
proof -
  have reset: "fst (trackSubmit ok t w) =
      createFormTracker (tracker_formId t) (tracker_formName t)"
    by (simp add: createFormTracker_def)
  have fresh: "\<not> truthy_number (startTime (createFormTracker fid fname))" for fid fname
    by (simp add: createFormTracker_def truthy_number_def)
  show ?thesis
    unfolding reset trackFieldFocus_new [OF fresh]
    by (simp add: Let_def createFormTracker_def)
qed

text \<open>
  A submit on a tracker with a start time and a field time, and a focus of \<open>email\<close>
  on the tracker it leaves, at clock readings 1050, 1060 and 1070, with a network that
  fails: both requests go out before the method returns, and the two errors are logged
  when the promises settle.
\<close>

theorem trackSubmit_resets_session_witness:
  "fst (trackSubmit True example_tracker (offline_world\<lparr>ticks := 3\<rparr>)) =
     createFormTracker ''signup'' None
   \<and> trackFieldFocus ''email'' None None
       (fst (trackSubmit True example_tracker (offline_world\<lparr>ticks := 3\<rparr>)))
       (offline_world\<lparr>ticks := 5\<rparr>) =
     (\<lparr>tracker_formId = ''signup'', tracker_formName = None, startTime = Some 1050,
        fieldStartTimes = [''email'' \<mapsto> 1060]\<rparr>,
      offline_world
        \<lparr>ticks := 8, fetches := 2,
         pending := [(0, form_event_failed), (1, form_event_failed)],
         trace :=
           [form_request ''start'' ''signup'' JUndefined JUndefined JUndefined JUndefined
              JUndefined JUndefined,
            form_request ''field_focus'' ''signup'' (JStr ''email'') JUndefined JUndefined
              JUndefined (JNum 20) JUndefined]\<rparr>)
   \<and> trace (settle 1 (settle 0
        (snd (trackFieldFocus ''email'' None None
               (fst (trackSubmit True example_tracker (offline_world\<lparr>ticks := 3\<rparr>)))
               (offline_world\<lparr>ticks := 5\<rparr>))))) =
     [form_request ''start'' ''signup'' JUndefined JUndefined JUndefined JUndefined
        JUndefined JUndefined,
      form_request ''field_focus'' ''signup'' (JStr ''email'') JUndefined JUndefined
        JUndefined (JNum 20) JUndefined,
      ConsoleError form_event_failed ''TypeError: Failed to fetch'',
      ConsoleError form_event_failed ''TypeError: Failed to fetch'']"
proof -
  note r = trackSubmit_resets_session [of True example_tracker "offline_world\<lparr>ticks := 3\<rparr>"
      "''email''" None None "offline_world\<lparr>ticks := 5\<rparr>"]
  have a: "fst (trackSubmit True example_tracker (offline_world\<lparr>ticks := 3\<rparr>)) =
     createFormTracker ''signup'' None"
    using r [THEN conjunct1] by (simp add: example_tracker_def)
  have b: "trackFieldFocus ''email'' None None
       (fst (trackSubmit True example_tracker (offline_world\<lparr>ticks := 3\<rparr>)))
       (offline_world\<lparr>ticks := 5\<rparr>) =
     (\<lparr>tracker_formId = ''signup'', tracker_formName = None, startTime = Some 1050,
        fieldStartTimes = [''email'' \<mapsto> 1060]\<rparr>,
      offline_world
        \<lparr>ticks := 8, fetches := 2,
         pending := [(0, form_event_failed), (1, form_event_failed)],
         trace :=
           [form_request ''start'' ''signup'' JUndefined JUndefined JUndefined JUndefined
              JUndefined JUndefined,
            form_request ''field_focus'' ''signup'' (JStr ''email'') JUndefined JUndefined
              JUndefined (JNum 20) JUndefined]\<rparr>)"
    using r [THEN conjunct2, THEN conjunct2]
    by (simp add: trackFormEvent_unawaited_def trackFormEvent_sync_def getConfig_def
          fetch_def form_event_def js_opt_def js_or_str_def example_world_def
          offline_world_def example_tracker_def form_request_def Let_def)
  show ?thesis
    unfolding b using a b
    by (simp add: settle_def catch_fetch_def console_error_def offline_world_def
          example_world_def)
qed

text \<open>
  What \<open>trackFieldBlur\<close> does for a field that was not focused in the current
  session, and what \<open>trackAbandon\<close> does, on every tracker: the time since the start
  is sent when \<open>startTime\<close> is truthy.
\<close>

lemma trackFieldBlur_event:
  assumes "reached cs t" and "\<not> focused_in_session field cs"
  shows "trackFieldBlur field ftype findex t w =
     (t, trackFormEvent_unawaited
           ((form_event field_blur t)
              \<lparr>fieldName := Some field, fieldType := ftype, fieldIndex := findex,
               timeOnField := None,
               timeSinceStart :=
                 (if truthy_number (startTime t)
                  then Some (clock w (ticks w) - to_number (startTime t)) else None)\<rparr>)
           (if truthy_number (startTime t) then w\<lparr>ticks := Suc (ticks w)\<rparr> else w))"
proof -
  have "fieldStartTimes t field = None"
    using assms by (simp add: reached_fieldStartTimes)
  then show ?thesis
    by (simp add: trackFieldBlur_def elapsed_since_eq truthy_number_def)
qed

lemma trackAbandon_event:
  "trackAbandon t w =
     (t, trackFormEvent_unawaited
           ((form_event abandon t)
              \<lparr>timeSinceStart :=
                 (if truthy_number (startTime t)
                  then Some (clock w (ticks w) - to_number (startTime t)) else None)\<rparr>)
           (if truthy_number (startTime t) then w\<lparr>ticks := Suc (ticks w)\<rparr> else w))"
  by (simp add: trackAbandon_def elapsed_since_eq)

lemma epoch_tracker_reached: "reached [TrackStart] epoch_tracker"
proof -
  have "reached [TrackStart]
      (fst (invoke TrackStart (createFormTracker ''signup'' None) epoch_world))"
    by (rule reached.called [OF reached.created])
  then show ?thesis
    by (simp add: createFormTracker_def epoch_world_def example_world_def epoch_tracker_def)
qed

text \<open>
  C8 fails on the code at a start time of 0. A tracker whose \<open>trackStart\<close> reads the
  clock at 0 has a start time, and \<open>email\<close> was never focused; the \<open>field_blur\<close>
  event has no \<open>timeOnField\<close>, as C8 says, but no \<open>timeSinceStart\<close> either:
  \<open>startTime ? ... : undefined\<close> takes the start time 0 for none.
\<close>

theorem trackFieldBlur_start_at_zero:
  "fst (trackStart (createFormTracker ''signup'' None) epoch_world) = epoch_tracker
   \<and> reached [TrackStart] epoch_tracker
   \<and> startTime epoch_tracker = Some 0
   \<and> \<not> focused_in_session ''email'' [TrackStart]
   \<and> trackFieldBlur ''email'' None None epoch_tracker (epoch_world\<lparr>ticks := 1\<rparr>) =
       (epoch_tracker,
        epoch_world
          \<lparr>ticks := 1, fetches := 1, pending := [(0, form_event_failed)],
           trace :=
             [form_request ''field_blur'' ''signup'' (JStr ''email'') JUndefined JUndefined
                JUndefined JUndefined JUndefined]\<rparr>)"
proof -
  have nf: "\<not> focused_in_session ''email'' [TrackStart]" by simp
  have started: "fst (trackStart (createFormTracker ''signup'' None) epoch_world) = epoch_tracker"
    by (simp add: createFormTracker_def epoch_world_def example_world_def epoch_tracker_def)
  have blur: "trackFieldBlur ''email'' None None epoch_tracker (epoch_world\<lparr>ticks := 1\<rparr>) =
       (epoch_tracker,
        epoch_world
          \<lparr>ticks := 1, fetches := 1, pending := [(0, form_event_failed)],
           trace :=
             [form_request ''field_blur'' ''signup'' (JStr ''email'') JUndefined JUndefined
                JUndefined JUndefined JUndefined]\<rparr>)"
    using trackFieldBlur_event [OF epoch_tracker_reached nf, of None None
        "epoch_world\<lparr>ticks := 1\<rparr>"]
    by (simp add: trackFormEvent_unawaited_def trackFormEvent_sync_def getConfig_def
          fetch_def form_event_def js_opt_def js_or_str_def example_world_def
          epoch_world_def epoch_tracker_def form_request_def truthy_number_def Let_def)
  from started epoch_tracker_reached nf blur show ?thesis
    by (simp add: epoch_tracker_def)
qed

text \<open>
  C9 fails on the code at a start time of 0, by the same test. \<open>trackAbandon\<close>
  returns the tracker as it was, as C9 says, but its \<open>abandon\<close> event has no
  \<open>timeSinceStart\<close> although a start time is recorded.
\<close>

theorem trackAbandon_start_at_zero:
  "reached [TrackStart] epoch_tracker
   \<and> startTime epoch_tracker = Some 0
   \<and> trackAbandon epoch_tracker (epoch_world\<lparr>ticks := 1\<rparr>) =
       (epoch_tracker,
        epoch_world
          \<lparr>ticks := 1, fetches := 1, pending := [(0, form_event_failed)],
           trace :=
             [form_request ''abandon'' ''signup'' JUndefined JUndefined JUndefined
                JUndefined JUndefined JUndefined]\<rparr>)"
proof -
  have "trackAbandon epoch_tracker (epoch_world\<lparr>ticks := 1\<rparr>) =
       (epoch_tracker,
        epoch_world
          \<lparr>ticks := 1, fetches := 1, pending := [(0, form_event_failed)],
           trace :=
             [form_request ''abandon'' ''signup'' JUndefined JUndefined JUndefined
                JUndefined JUndefined JUndefined]\<rparr>)"
    using trackAbandon_event [of epoch_tracker "epoch_world\<lparr>ticks := 1\<rparr>"]
    by (simp add: trackFormEvent_unawaited_def trackFormEvent_sync_def getConfig_def
          fetch_def form_event_def js_opt_def js_or_str_def example_world_def
          epoch_world_def epoch_tracker_def form_request_def truthy_number_def Let_def)
  with epoch_tracker_reached show ?thesis
    by (simp add: epoch_tracker_def)
qed

lemma tryExecute_finds:
  "m \<le> n \<Longrightarrow> present n \<Longrightarrow> \<exists>k. m \<le> k \<and> k \<le> n \<and> tryExecute present m = Some k"
proof (induction "n - m" arbitrary: m)
  case 0
  then have "m = n" by simp
  with 0 show ?case by (subst tryExecute.simps) auto
next
  case (Suc d)
  show ?case
  proof (cases "present m")
    case True
    with Suc.prems show ?thesis by (subst tryExecute.simps) auto
  next
    case False
    from Suc have "d = n - Suc m" and "Suc m \<le> n" by simp_all
    with Suc obtain k where "Suc m \<le> k" "k \<le> n" "tryExecute present (Suc m) = Some k"
      by blast
    with False show ?thesis by (subst tryExecute.simps) auto
  qed
qed

lemma map_of_revenue_eventData:
  "map_of (revenue_eventData revenue currency data) =
     (map_of (case data of None \<Rightarrow> [] | Some d \<Rightarrow> d))
       (''revenue'' \<mapsto> JNum revenue, ''currency'' \<mapsto> JStr currency)"
  by (simp add: revenue_eventData_def update_conv')

lemma keys_revenue_eventData:
  "fst ` set (revenue_eventData revenue currency data) =
     fst ` set (case data of None \<Rightarrow> [] | Some d \<Rightarrow> d) \<union> {''revenue'', ''currency''}"
  by (simp add: revenue_eventData_def dom_update)

text \<open>
  C7: in a browser where the tracker is present at some check, \<open>trackRevenue\<close>
  calls the tracker's \<open>track\<close> once, with the given event name and one object that
  holds the revenue under \<open>revenue\<close>, the currency (\<open>USD\<close> when not given) under
  \<open>currency\<close>, and every other entry of the data record; its keys are those of the
  record and these two.
\<close>

theorem trackRevenue_delegates:
  assumes "window_defined w" and "checks w \<le> n" and "tracker_at w n"
  shows "(\<exists>k. checks w \<le> k \<and> k \<le> n \<and>
           trackRevenue eventName revenue currency data w =
             Some (w\<lparr>checks := Suc k,
                     trace := trace w
                       @ [TrackerTrack eventName
                            (revenue_eventData revenue (or_default currency ''USD'') data)]\<rparr>))
         \<and> map_of (revenue_eventData revenue (or_default currency ''USD'') data) =
             (map_of (case data of None \<Rightarrow> [] | Some d \<Rightarrow> d))
               (''revenue'' \<mapsto> JNum revenue,
                ''currency'' \<mapsto> JStr (or_default currency ''USD''))
         \<and> fst ` set (revenue_eventData revenue (or_default currency ''USD'') data) =
             fst ` set (case data of None \<Rightarrow> [] | Some d \<Rightarrow> d) \<union> {''revenue'', ''currency''}"
proof -
  from assms(2,3) obtain k where k: "checks w \<le> k" "k \<le> n"
      "tryExecute (tracker_at w) (checks w) = Some k"
    using tryExecute_finds by blast
  with assms(1) have "trackRevenue eventName revenue currency data w =
             Some (w\<lparr>checks := Suc k,
                     trace := trace w
                       @ [TrackerTrack eventName
                            (revenue_eventData revenue (or_default currency ''USD'') data)]\<rparr>)"
    by (simp add: trackRevenue_def waitForTracker_def tracker_track_def)
  with k(1,2) show ?thesis
    using map_of_revenue_eventData keys_revenue_eventData by blast
qed

text \<open>
  The example of the function's comment, with the tracker present from the third check
  on.
\<close>

theorem trackRevenue_delegates_witness:
  "trackRevenue ''purchase'' (9999 / 100) (Some ''USD'') (Some [(''productId'', JStr ''abc'')])
     example_world =
     Some (example_world
             \<lparr>checks := 3,
              trace := [TrackerTrack ''purchase''
                          [(''productId'', JStr ''abc''), (''revenue'', JNum (9999 / 100)),
                           (''currency'', JStr ''USD'')]]\<rparr>)"
proof -
  have w: "window_defined example_world" and c: "checks example_world \<le> 2"
    and p: "tracker_at example_world 2"
    by (simp_all add: example_world_def)
  from trackRevenue_delegates [OF w c p, of "''purchase''" "9999 / 100" "Some ''USD''"
      "Some [(''productId'', JStr ''abc'')]"]
  obtain k where k: "k \<le> 2"
    "trackRevenue ''purchase'' (9999 / 100) (Some ''USD'') (Some [(''productId'', JStr ''abc'')])
       example_world =
     Some (example_world
             \<lparr>checks := Suc k,
              trace := trace example_world
                @ [TrackerTrack ''purchase''
                     (revenue_eventData (9999 / 100) (or_default (Some ''USD'') ''USD'')
                        (Some [(''productId'', JStr ''abc'')]))]\<rparr>)"
    by blast
  have "tryExecute (tracker_at example_world) (checks example_world) = Some 2"
    by (simp add: tryExecute.simps example_world_def)
  with w have "\<exists>v. trackRevenue ''purchase'' (9999 / 100) (Some ''USD'')
       (Some [(''productId'', JStr ''abc'')]) example_world = Some v \<and> checks v = 3"
    by (simp add: trackRevenue_def waitForTracker_def tracker_track_def)
  with k(2) have "k = 2" by auto
  with k(2) show ?thesis
    by (simp add: revenue_eventData_def or_default_def example_world_def)
qed

lemma settled_Fulfilled:
  "fst (trackVital vital w) = Fulfilled" "fst (trackFormEvent event w) = Fulfilled"
  by (simp_all add: trackVital_def trackFormEvent_def trackFormEvent_sync_def Let_def
        split: option.split prod.split)

text \<open>
  C4 (as amended): in a browser without \<open>window.__entrolytics_config\<close>,
  \<open>trackVital\<close> and \<open>trackFormEvent\<close> write the warning and do nothing else; outside
  a browser they do nothing at all, and write no warning. In every world the promise
  they return is fulfilled, so nothing is thrown, and in both cases here no request is
  made.
\<close>

theorem track_without_config:
  "(window_defined w \<and> entrolytics_config w = None \<longrightarrow>
      trackVital vital w = (Fulfilled, w\<lparr>trace := trace w @ [ConsoleWarn config_not_found]\<rparr>)
      \<and> trackFormEvent event w =
          (Fulfilled, w\<lparr>trace := trace w @ [ConsoleWarn config_not_found]\<rparr>))
   \<and> (\<not> window_defined w \<longrightarrow>
        trackVital vital w = (Fulfilled, w) \<and> trackFormEvent event w = (Fulfilled, w))
   \<and> fst (trackVital vital w) = Fulfilled \<and> fst (trackFormEvent event w) = Fulfilled"
  by (simp add: settled_Fulfilled)
     (simp add: trackVital_def trackFormEvent_def trackFormEvent_sync_def getConfig_def
        console_warn_def)

text \<open>A browser without the configuration, and a server.\<close>

theorem track_without_config_witness:
  "trace (snd (trackVital example_vital (example_world\<lparr>entrolytics_config := None\<rparr>))) =
     [ConsoleWarn config_not_found]
   \<and> trace (snd (trackFormEvent example_event (example_world\<lparr>entrolytics_config := None\<rparr>))) =
     [ConsoleWarn config_not_found]
   \<and> trackVital example_vital server_world = (Fulfilled, server_world)"
  using track_without_config [of "example_world\<lparr>entrolytics_config := None\<rparr>"
          example_vital example_event]
        track_without_config [of server_world example_vital example_event]
  by (simp add: example_world_def server_world_def)

text \<open>
  C4 as stated fails: outside a browser there is no configuration, and the two
  functions return without the warning.
\<close>

theorem track_without_config_counterexample:
  "getConfig server_world = None
   \<and> trackVital example_vital server_world = (Fulfilled, server_world)
   \<and> trackFormEvent example_event server_world = (Fulfilled, server_world)
   \<and> ConsoleWarn config_not_found \<notin> set (trace (snd (trackVital example_vital server_world)))
   \<and> ConsoleWarn config_not_found
         \<notin> set (trace (snd (trackFormEvent example_event server_world)))"
  by (simp add: server_world_def example_world_def getConfig_def trackVital_def
        trackFormEvent_def trackFormEvent_sync_def)

end
